theory Spec2Isabelle
  imports Complex_Main
begin

section \<open>The phase selector \<open>TorqueToPD\<close>\<close>

text \<open>
  The program is the single script \<^verbatim>\<open>luxojr.py\<close>. The parameters of the selector
  and the times are finite Python floats and are modelled as \<^typ>\<open>real\<close>: the
  parameters are literals, the times are readings of \<^verbatim>\<open>time.time()\<close> and their
  differences, and the program compares them and passes them through. A position is
  read from the actuator and may be any float, also an infinity or NaN; it is a
  \<open>pyfloat\<close>. The rounding of float arithmetic is not modelled.

  A \<^verbatim>\<open>TorqueToPD\<close> object holds the ten parameters stored by \<^verbatim>\<open>__init__\<close> and the
  latch \<^verbatim>\<open>past_pd_threshold\<close>. The \<^verbatim>\<open>controller\<close> attribute is the handle of the
  actuator; the actuator lives in the environment of the run (see below), so the record
  has no field for it.
\<close>

record TorqueToPD =
  t_begin :: real
  t_reset :: real
  pd_begin :: real
  pd_target :: real
  torque :: real
  kp_scale :: real
  kd_scale :: real
  maximum_torque :: real
  reset_torque :: real
  past_pd_threshold :: bool
  termination_time :: real

text \<open>
  \<^verbatim>\<open>__init__(self, controller, t_begin, t_reset, pd_begin, pd_target, torque, kp_scale,
  kd_scale, maximum_torque, termination_time, reset_torque)\<close>: every argument is stored as
  it is, nothing is checked, and the latch starts \<^verbatim>\<open>False\<close>.
\<close>

definition TorqueToPD_init ::
  "real \<Rightarrow> real \<Rightarrow> real \<Rightarrow> real \<Rightarrow> real \<Rightarrow> real \<Rightarrow> real \<Rightarrow> real \<Rightarrow> real \<Rightarrow> real \<Rightarrow> TorqueToPD" where
  "TorqueToPD_init tb tr pb pt tq kp kd mt tt rt =
     \<lparr>t_begin = tb, t_reset = tr, pd_begin = pb, pd_target = pt, torque = tq,
      kp_scale = kp, kd_scale = kd, maximum_torque = mt, reset_torque = rt,
      past_pd_threshold = False, termination_time = tt\<rparr>"

text \<open>
  The keyword arguments of one \<^verbatim>\<open>controller.set_position\<close> call. An argument that a call
  does not pass is \<open>None\<close>; \<^verbatim>\<open>kp_scale\<close>, \<^verbatim>\<open>kd_scale\<close>, \<^verbatim>\<open>maximum_torque\<close> and
  \<^verbatim>\<open>query\<close> are passed by all four calls of the selector.
\<close>

record command =
  cmd_position :: "real option"
  cmd_feedforward_torque :: "real option"
  cmd_kp_scale :: real
  cmd_kd_scale :: real
  cmd_maximum_torque :: real
  cmd_query :: bool

text \<open>
  A Python float: a finite number, an infinity, or NaN. \<open>float_lt x b\<close> is Python's
  \<^verbatim>\<open>x < b\<close> and \<open>float_ge x b\<close> is Python's \<^verbatim>\<open>x >= b\<close>, for a float \<open>x\<close> and a
  finite \<open>b\<close>: both are false when \<open>x\<close> is NaN.
\<close>

datatype pyfloat = Finite real | PosInf | NegInf | NaN

fun float_lt :: "pyfloat \<Rightarrow> real \<Rightarrow> bool" where
  "float_lt (Finite a) b = (a < b)"
| "float_lt PosInf b = False"
| "float_lt NegInf b = True"
| "float_lt NaN b = False"

fun float_ge :: "pyfloat \<Rightarrow> real \<Rightarrow> bool" where
  "float_ge (Finite a) b = (a \<ge> b)"
| "float_ge PosInf b = True"
| "float_ge NegInf b = False"
| "float_ge NaN b = False"

text \<open>
  \<^verbatim>\<open>__call__(self, pos, t)\<close> chooses the keyword arguments by an \<^verbatim>\<open>if/elif\<close> chain, sets
  the latch in the third branch, and awaits \<^verbatim>\<open>set_position\<close>. The function below is the
  chain: it returns the arguments of the call to be sent and the object after the call.
  Sending is \<open>set_position\<close> of the control loop.
\<close>

definition TorqueToPD_call :: "TorqueToPD \<Rightarrow> pyfloat \<Rightarrow> real \<Rightarrow> command \<times> TorqueToPD" where
  "TorqueToPD_call self pos t =
     (if t < t_begin self then
        (\<lparr>cmd_position = Some 0, cmd_feedforward_torque = None,
          cmd_kp_scale = kp_scale self, cmd_kd_scale = kd_scale self,
          cmd_maximum_torque = maximum_torque self, cmd_query = True\<rparr>, self)
      else if float_lt pos (pd_begin self) \<and> \<not> past_pd_threshold self then
        (\<lparr>cmd_position = None, cmd_feedforward_torque = Some (torque self),
          cmd_kp_scale = 0, cmd_kd_scale = 0,
          cmd_maximum_torque = maximum_torque self, cmd_query = True\<rparr>, self)
      else if t < t_reset self then
        (\<lparr>cmd_position = Some (pd_target self), cmd_feedforward_torque = None,
          cmd_kp_scale = kp_scale self, cmd_kd_scale = kd_scale self,
          cmd_maximum_torque = maximum_torque self, cmd_query = True\<rparr>,
         self\<lparr>past_pd_threshold := True\<rparr>)
      else
        (\<lparr>cmd_position = Some 0, cmd_feedforward_torque = None,
          cmd_kp_scale = kp_scale self, cmd_kd_scale = kd_scale self,
          cmd_maximum_torque = reset_torque self, cmd_query = True\<rparr>, self))"

text \<open>
  A sequence of selector calls on one object, each given as \<open>(pos, t)\<close>: the object
  after the last of them.
\<close>

fun calls :: "TorqueToPD \<Rightarrow> (pyfloat \<times> real) list \<Rightarrow> TorqueToPD" where
  "calls self [] = self"
| "calls self ((pos, t) # rest) = calls (snd (TorqueToPD_call self pos t)) rest"

text \<open>The selector that \<^verbatim>\<open>main\<close> constructs, with the defaults of \<^verbatim>\<open>__init__\<close> filled in.\<close>

definition main_torque_to_pd :: TorqueToPD where
  "main_torque_to_pd = TorqueToPD_init 0.4 0.8 2.0 2.5 1.5 1.0 1.0 1.5 1.2 0.2"

section \<open>The control loop \<open>main\<close>\<close>

text \<open>
  What the run does to the outside is kept in a \<open>world\<close>: how many times the clock
  and the actuator have been used, the module-level list \<^verbatim>\<open>data\<close>, and the trace of
  the calls made on the controller and on the log file. What the outside answers is an
  \<open>env\<close>: the value of the \<open>n\<close>-th call of \<^verbatim>\<open>time.time()\<close>, and the answer to the
  \<open>n\<close>-th call on the controller, \<open>None\<close> when that call raises and otherwise a
  reply that carries the position register, as the replies to the default query of
  \<^verbatim>\<open>moteus.Controller()\<close> do. The event \<open>Dump d\<close> is the call
  \<^verbatim>\<open>pickle.dump(data, f)\<close> with \<open>data = d\<close>; a log file that cannot be opened or
  written is outside the model, and \<^verbatim>\<open>print\<close> is left out. The filtered period
  \<^verbatim>\<open>dt_filtered\<close> is only printed; its update is written over the reals, and no
  theorem below is about its value.
\<close>

datatype error = ActuatorError

text \<open>The answer of the controller to a query: \<^verbatim>\<open>state.values[moteus.Register.POSITION]\<close>.\<close>

record result =
  POSITION :: pyfloat

type_synonym sample = "real \<times> result"

datatype event = Stop | SetPosition command | Dump "sample list"

record world =
  clock_reads :: nat
  actuator_calls :: nat
  data :: "sample list"
  trace :: "event list"

record env =
  clock :: "nat \<Rightarrow> real"
  actuator :: "nat \<Rightarrow> result option"

text \<open>The state at module load: \<^verbatim>\<open>data = []\<close>, nothing done yet.\<close>

definition world0 :: world where
  "world0 = \<lparr>clock_reads = 0, actuator_calls = 0, data = [], trace = []\<rparr>"

definition time_time :: "env \<Rightarrow> world \<Rightarrow> real \<times> world" where
  "time_time e w = (clock e (clock_reads w), w\<lparr>clock_reads := Suc (clock_reads w)\<rparr>)"

definition set_stop :: "env \<Rightarrow> world \<Rightarrow> (error + unit) \<times> world" where
  "set_stop e w =
     (case actuator e (actuator_calls w) of
        None \<Rightarrow> Inl ActuatorError
      | Some r \<Rightarrow> Inr (),
      w\<lparr>actuator_calls := Suc (actuator_calls w), trace := trace w @ [Stop]\<rparr>)"

definition set_position :: "env \<Rightarrow> command \<Rightarrow> world \<Rightarrow> (error + result) \<times> world" where
  "set_position e c w =
     (case actuator e (actuator_calls w) of
        None \<Rightarrow> Inl ActuatorError
      | Some r \<Rightarrow> Inr r,
      w\<lparr>actuator_calls := Suc (actuator_calls w), trace := trace w @ [SetPosition c]\<rparr>)"

definition pickle_dump :: "world \<Rightarrow> world" where
  "pickle_dump w = w\<lparr>trace := trace w @ [Dump (data w)]\<rparr>"

text \<open>The local variables of \<^verbatim>\<open>main\<close> that live across iterations.\<close>

record frame =
  dt_filtered :: real
  last_time :: real
  timestamp_begin_loop :: real
  last_position :: pyfloat
  torque_to_pd :: TorqueToPD

text \<open>
  One iteration of \<^verbatim>\<open>while True\<close> (lines 60 to 77): it goes on with new locals, returns,
  or raises what \<^verbatim>\<open>set_position\<close> raised.
\<close>

datatype flow = Continue frame | Return | Raise error

definition loop_body :: "env \<Rightarrow> frame \<Rightarrow> world \<Rightarrow> flow \<times> world" where
  "loop_body e f w =
     (let (loop_start, w1) = time_time e w;
          time_since_start = loop_start - timestamp_begin_loop f;
          dt = loop_start - last_time f;
          dt_filtered' = 0.99 * dt_filtered f + 0.01 * dt;
          (c, torque_to_pd') = TorqueToPD_call (torque_to_pd f) (last_position f) time_since_start;
          (r, w2) = set_position e c w1
      in case r of
           Inl err \<Rightarrow> (Raise err, w2)
         | Inr state \<Rightarrow>
             let w3 = w2\<lparr>data := data w2 @ [(time_since_start, state)]\<rparr>
             in if time_since_start > termination_time torque_to_pd' then (Return, w3)
                else (Continue \<lparr>dt_filtered = dt_filtered', last_time = loop_start,
                                timestamp_begin_loop = timestamp_begin_loop f,
                                last_position = POSITION state,
                                torque_to_pd = torque_to_pd'\<rparr>, w3))"

text \<open>
  The loop, with fuel: \<open>None\<close> when the given number of iterations does not reach a
  \<^verbatim>\<open>return\<close> or an exception. Otherwise the outcome of the \<^verbatim>\<open>try\<close> block.
\<close>

fun while_True :: "nat \<Rightarrow> env \<Rightarrow> frame \<Rightarrow> world \<Rightarrow> ((error + unit) \<times> world) option" where
  "while_True 0 e f w = None"
| "while_True (Suc n) e f w =
     (case loop_body e f w of
        (Continue f', w') \<Rightarrow> while_True n e f' w'
      | (Return, w') \<Rightarrow> Some (Inr (), w')
      | (Raise err, w') \<Rightarrow> Some (Inl err, w'))"

text \<open>
  Lines 44 to 57: the locals before the first iteration. The selector object is a
  parameter here; \<^verbatim>\<open>main\<close> passes the one it constructs.
\<close>

definition main_locals :: "TorqueToPD \<Rightarrow> env \<Rightarrow> world \<Rightarrow> frame \<times> world" where
  "main_locals tpd e w =
     (let (last_time0, w1) = time_time e w;
          (timestamp_begin_loop0, w2) = time_time e w1
      in (\<lparr>dt_filtered = 0, last_time = last_time0,
           timestamp_begin_loop = timestamp_begin_loop0,
           last_position = Finite 0.0, torque_to_pd = tpd\<rparr>, w2))"

text \<open>The body of \<^verbatim>\<open>try\<close>: the first \<^verbatim>\<open>set_stop\<close>, the locals, the loop.\<close>

definition main_try :: "nat \<Rightarrow> TorqueToPD \<Rightarrow> env \<Rightarrow> world \<Rightarrow> ((error + unit) \<times> world) option" where
  "main_try fuel tpd e w =
     (case set_stop e w of
        (Inl err, w1) \<Rightarrow> Some (Inl err, w1)
      | (Inr u, w1) \<Rightarrow>
          (let (f, w2) = main_locals tpd e w1 in while_True fuel e f w2))"

text \<open>
  The \<^verbatim>\<open>finally\<close> block, entered with the outcome \<open>r\<close> of the \<^verbatim>\<open>try\<close> block: if its
  \<^verbatim>\<open>set_stop\<close> raises, that exception leaves \<^verbatim>\<open>main\<close> and the dump is not reached;
  otherwise the dump is made and \<open>r\<close> is the outcome of \<^verbatim>\<open>main\<close>.
\<close>

definition main_finally :: "env \<Rightarrow> (error + unit) \<Rightarrow> world \<Rightarrow> (error + unit) \<times> world" where
  "main_finally e r w =
     (case set_stop e w of
        (Inl err, w1) \<Rightarrow> (Inl err, w1)
      | (Inr u, w1) \<Rightarrow> (r, pickle_dump w1))"

definition main_with :: "nat \<Rightarrow> TorqueToPD \<Rightarrow> env \<Rightarrow> world \<Rightarrow> ((error + unit) \<times> world) option" where
  "main_with fuel tpd e w =
     (case main_try fuel tpd e w of
        None \<Rightarrow> None
      | Some (r, w1) \<Rightarrow> Some (main_finally e r w1))"

definition main :: "nat \<Rightarrow> env \<Rightarrow> world \<Rightarrow> ((error + unit) \<times> world) option" where
  "main fuel e w = main_with fuel main_torque_to_pd e w"

section \<open>Environments for concrete runs\<close>

text \<open>
  A clock that advances half a second per reading, and an actuator that answers its
  \<open>n\<close>-th call with position \<open>n\<close>.
\<close>

definition env_half :: env where
  "env_half = \<lparr>clock = (\<lambda>n. real n / 2),
                actuator = (\<lambda>n. Some \<lparr>POSITION = Finite (real n)\<rparr>)\<rparr>"

text \<open>
  A wall clock that is set back by half a second between the reading of
  \<^verbatim>\<open>timestamp_begin_loop\<close> and the first \<^verbatim>\<open>loop_start\<close>, and advances half a second per
  reading after that; the actuator as before.
\<close>

definition env_clock_back :: env where
  "env_clock_back = \<lparr>clock = (\<lambda>n. if n \<le> 1 then 1 else real n / 2 - 1 / 2),
                      actuator = (\<lambda>n. Some \<lparr>POSITION = Finite (real n)\<rparr>)\<rparr>"

text \<open>
  An actuator that answers the first \<^verbatim>\<open>set_stop\<close> and raises on every call after it,
  as a transport does once the cable is out.
\<close>

definition env_unplugged :: env where
  "env_unplugged = \<lparr>clock = (\<lambda>n. real n / 2),
                     actuator = (\<lambda>n. if n = 0 then Some \<lparr>POSITION = Finite 0\<rparr> else None)\<rparr>"

section \<open>Properties of the selector\<close>

lemma call_latch_mono:
  "past_pd_threshold self \<Longrightarrow> past_pd_threshold (snd (TorqueToPD_call self pos t))"
  by (simp add: TorqueToPD_call_def)

lemma calls_latch_mono: "past_pd_threshold self \<Longrightarrow> past_pd_threshold (calls self xs)"
  by (induction xs arbitrary: self) (auto simp: call_latch_mono)

lemma call_params:
  "t_begin (snd (TorqueToPD_call self pos t)) = t_begin self"
  "t_reset (snd (TorqueToPD_call self pos t)) = t_reset self"
  "pd_begin (snd (TorqueToPD_call self pos t)) = pd_begin self"
  "pd_target (snd (TorqueToPD_call self pos t)) = pd_target self"
  "torque (snd (TorqueToPD_call self pos t)) = torque self"
  "kp_scale (snd (TorqueToPD_call self pos t)) = kp_scale self"
  "kd_scale (snd (TorqueToPD_call self pos t)) = kd_scale self"
  "maximum_torque (snd (TorqueToPD_call self pos t)) = maximum_torque self"
  "reset_torque (snd (TorqueToPD_call self pos t)) = reset_torque self"
  "termination_time (snd (TorqueToPD_call self pos t)) = termination_time self"
  by (simp_all add: TorqueToPD_call_def)

lemma calls_params:
  "t_begin (calls self xs) = t_begin self"
  "t_reset (calls self xs) = t_reset self"
  "pd_begin (calls self xs) = pd_begin self"
  "pd_target (calls self xs) = pd_target self"
  "kp_scale (calls self xs) = kp_scale self"
  "kd_scale (calls self xs) = kd_scale self"
  "maximum_torque (calls self xs) = maximum_torque self"
  by (induction xs arbitrary: self) (auto simp: call_params)

text \<open>
  C5. Whenever \<open>t < t_begin\<close>, whatever the position and whatever the latch, the selector
  sends the hold-zero command: target position 0, the configured \<open>kp_scale\<close>,
  \<open>kd_scale\<close> and \<open>maximum_torque\<close>, no feedforward torque, and \<open>query\<close> set. The object
  is left as it was.
\<close>

theorem hold_zero_before_t_begin:
  "t < t_begin self \<Longrightarrow>
   TorqueToPD_call self pos t =
     (\<lparr>cmd_position = Some 0, cmd_feedforward_torque = None,
       cmd_kp_scale = kp_scale self, cmd_kd_scale = kd_scale self,
       cmd_maximum_torque = maximum_torque self, cmd_query = True\<rparr>, self)"
  by (simp add: TorqueToPD_call_def)

theorem hold_zero_before_t_begin_witness:
  "(0.1::real) < t_begin (main_torque_to_pd\<lparr>past_pd_threshold := True\<rparr>) \<and>
   TorqueToPD_call (main_torque_to_pd\<lparr>past_pd_threshold := True\<rparr>) (Finite 5) 0.1 =
     (\<lparr>cmd_position = Some 0, cmd_feedforward_torque = None,
       cmd_kp_scale = 1, cmd_kd_scale = 1,
       cmd_maximum_torque = 1.5, cmd_query = True\<rparr>,
      main_torque_to_pd\<lparr>past_pd_threshold := True\<rparr>)"
  using hold_zero_before_t_begin [of "0.1" "main_torque_to_pd\<lparr>past_pd_threshold := True\<rparr>" "Finite 5"]
  by (simp add: main_torque_to_pd_def TorqueToPD_init_def)

text \<open>
  C8. Whenever \<open>t \<ge> t_begin\<close>, \<open>pos < pd_begin\<close> (as Python compares the two
  floats) and the latch is false, the selector
  sends the feedforward-push command: no target position, feedforward torque \<open>torque\<close>,
  both gains 0, torque limit \<open>maximum_torque\<close>, and \<open>query\<close> set.
\<close>

theorem feedforward_push_below_threshold:
  "t_begin self \<le> t \<Longrightarrow> float_lt pos (pd_begin self) \<Longrightarrow> \<not> past_pd_threshold self \<Longrightarrow>
   fst (TorqueToPD_call self pos t) =
     \<lparr>cmd_position = None, cmd_feedforward_torque = Some (torque self),
      cmd_kp_scale = 0, cmd_kd_scale = 0,
      cmd_maximum_torque = maximum_torque self, cmd_query = True\<rparr>"
  by (simp add: TorqueToPD_call_def)

theorem feedforward_push_below_threshold_witness:
  "t_begin main_torque_to_pd \<le> 0.5 \<and> float_lt (Finite 1) (pd_begin main_torque_to_pd) \<and>
   \<not> past_pd_threshold main_torque_to_pd \<and>
   fst (TorqueToPD_call main_torque_to_pd (Finite 1) 0.5) =
     \<lparr>cmd_position = None, cmd_feedforward_torque = Some 1.5,
      cmd_kp_scale = 0, cmd_kd_scale = 0,
      cmd_maximum_torque = 1.5, cmd_query = True\<rparr>"
  using feedforward_push_below_threshold [of main_torque_to_pd "0.5" "Finite 1"]
  by (simp add: main_torque_to_pd_def TorqueToPD_init_def)

text \<open>
  C1. The claim that every call with \<open>t \<ge> t_reset\<close> sends the torque-limited reset
  command fails on the selector \<^verbatim>\<open>main\<close> constructs: at \<open>t = 1.0\<close>, position \<open>0\<close> and
  latch false the second branch is taken before the time is compared with \<open>t_reset\<close>, and
  the feedforward push is sent. It also fails when \<open>t_reset \<le> t < t_begin\<close>, where the
  first branch sends hold-zero with torque limit \<open>maximum_torque\<close>.
\<close>

theorem reset_after_t_reset_counterexample:
  "t_reset main_torque_to_pd \<le> 1 \<and>
   fst (TorqueToPD_call main_torque_to_pd (Finite 0) 1) =
     \<lparr>cmd_position = None, cmd_feedforward_torque = Some 1.5,
      cmd_kp_scale = 0, cmd_kd_scale = 0,
      cmd_maximum_torque = 1.5, cmd_query = True\<rparr> \<and>
   fst (TorqueToPD_call main_torque_to_pd (Finite 0) 1) \<noteq>
     \<lparr>cmd_position = Some 0, cmd_feedforward_torque = None,
      cmd_kp_scale = kp_scale main_torque_to_pd, cmd_kd_scale = kd_scale main_torque_to_pd,
      cmd_maximum_torque = reset_torque main_torque_to_pd, cmd_query = True\<rparr> \<and>
   t_reset (TorqueToPD_init 1 0.5 2.0 2.5 1.5 1.0 1.0 1.5 1.2 0.2) \<le> 0.7 \<and>
   cmd_maximum_torque (fst (TorqueToPD_call (TorqueToPD_init 1 0.5 2.0 2.5 1.5 1.0 1.0 1.5 1.2 0.2) (Finite 3) 0.7)) \<noteq>
     reset_torque (TorqueToPD_init 1 0.5 2.0 2.5 1.5 1.0 1.0 1.5 1.2 0.2)"
  by (simp add: main_torque_to_pd_def TorqueToPD_init_def TorqueToPD_call_def)

text \<open>
  C1, as the code has it. On an object with \<open>t_begin \<le> t_reset\<close>, a call with
  \<open>t \<ge> t_reset\<close> sends the torque-limited reset command (target position 0, the configured
  gains, torque limit \<open>reset_torque\<close>) when \<open>pos \<ge> pd_begin\<close> or the latch is set, and
  the feedforward push when \<open>pos < pd_begin\<close> and the latch is clear. A position that
  is NaN is not below \<open>pd_begin\<close>, so it gets the reset command as well. The object is
  left as it was in all cases.
\<close>

theorem reset_after_t_reset:
  "t_begin self \<le> t_reset self \<Longrightarrow> t_reset self \<le> t \<Longrightarrow>
   TorqueToPD_call self pos t =
     (if float_lt pos (pd_begin self) \<and> \<not> past_pd_threshold self then
        (\<lparr>cmd_position = None, cmd_feedforward_torque = Some (torque self),
          cmd_kp_scale = 0, cmd_kd_scale = 0,
          cmd_maximum_torque = maximum_torque self, cmd_query = True\<rparr>, self)
      else
        (\<lparr>cmd_position = Some 0, cmd_feedforward_torque = None,
          cmd_kp_scale = kp_scale self, cmd_kd_scale = kd_scale self,
          cmd_maximum_torque = reset_torque self, cmd_query = True\<rparr>, self))"
  by (simp add: TorqueToPD_call_def)

theorem reset_after_t_reset_witness:
  "t_begin main_torque_to_pd \<le> t_reset main_torque_to_pd \<and>
   t_reset main_torque_to_pd \<le> 1 \<and>
   TorqueToPD_call main_torque_to_pd (Finite 2.2) 1 =
     (\<lparr>cmd_position = Some 0, cmd_feedforward_torque = None,
       cmd_kp_scale = 1, cmd_kd_scale = 1,
       cmd_maximum_torque = 0.2, cmd_query = True\<rparr>, main_torque_to_pd)"
  using reset_after_t_reset [of main_torque_to_pd 1 "Finite 2.2"]
  by (simp add: main_torque_to_pd_def TorqueToPD_init_def)

lemma call_latch:
  "past_pd_threshold (snd (TorqueToPD_call self pos t)) =
     (past_pd_threshold self \<or>
      (t_begin self \<le> t \<and> t < t_reset self \<and> \<not> float_lt pos (pd_begin self)))"
  by (auto simp: TorqueToPD_call_def)

lemma call_latched:
  "past_pd_threshold self \<Longrightarrow> t_begin self \<le> t \<Longrightarrow> t < t_reset self \<Longrightarrow>
   fst (TorqueToPD_call self pos t) =
     \<lparr>cmd_position = Some (pd_target self), cmd_feedforward_torque = None,
      cmd_kp_scale = kp_scale self, cmd_kd_scale = kd_scale self,
      cmd_maximum_torque = maximum_torque self, cmd_query = True\<rparr>"
  by (simp add: TorqueToPD_call_def)

text \<open>
  C4. The latch of a new object is false. A call that turns it from false to true is a
  call in the third branch (\<open>t_begin \<le> t < t_reset\<close>), which sends the position-target
  command. Once true it stays true through any further calls. Hence, after the latch has
  become true and after any further calls \<open>xs\<close>, a call with \<open>pos < pd_begin\<close> and
  \<open>t_begin \<le> t < t_reset\<close> sends the position-target command, which is not the
  feedforward push.
\<close>

theorem latch_is_sticky:
  "\<not> past_pd_threshold (TorqueToPD_init tb tr pb pt tq kp kd mt tt rt) \<and>
   (\<not> past_pd_threshold self \<and> past_pd_threshold (snd (TorqueToPD_call self pos t)) \<longrightarrow>
      t_begin self \<le> t \<and> t < t_reset self \<and>
      fst (TorqueToPD_call self pos t) =
        \<lparr>cmd_position = Some (pd_target self), cmd_feedforward_torque = None,
         cmd_kp_scale = kp_scale self, cmd_kd_scale = kd_scale self,
         cmd_maximum_torque = maximum_torque self, cmd_query = True\<rparr>) \<and>
   (past_pd_threshold self \<longrightarrow> past_pd_threshold (calls self xs)) \<and>
   (past_pd_threshold self \<and> float_lt pos' (pd_begin self) \<and> t_begin self \<le> t' \<and> t' < t_reset self \<longrightarrow>
      fst (TorqueToPD_call (calls self xs) pos' t') =
        \<lparr>cmd_position = Some (pd_target self), cmd_feedforward_torque = None,
         cmd_kp_scale = kp_scale self, cmd_kd_scale = kd_scale self,
         cmd_maximum_torque = maximum_torque self, cmd_query = True\<rparr> \<and>
      fst (TorqueToPD_call (calls self xs) pos' t') \<noteq>
        \<lparr>cmd_position = None, cmd_feedforward_torque = Some (torque self),
         cmd_kp_scale = 0, cmd_kd_scale = 0,
         cmd_maximum_torque = maximum_torque self, cmd_query = True\<rparr>)"
proof (intro conjI impI)
  show "\<not> past_pd_threshold (TorqueToPD_init tb tr pb pt tq kp kd mt tt rt)"
    by (simp add: TorqueToPD_init_def)
next
  assume a: "\<not> past_pd_threshold self \<and> past_pd_threshold (snd (TorqueToPD_call self pos t))"
  then show "t_begin self \<le> t" "t < t_reset self"
    by (auto simp: call_latch)
  from a show "fst (TorqueToPD_call self pos t) =
        \<lparr>cmd_position = Some (pd_target self), cmd_feedforward_torque = None,
         cmd_kp_scale = kp_scale self, cmd_kd_scale = kd_scale self,
         cmd_maximum_torque = maximum_torque self, cmd_query = True\<rparr>"
    by (auto simp: TorqueToPD_call_def split: if_splits)
next
  assume "past_pd_threshold self"
  then show "past_pd_threshold (calls self xs)"
    by (rule calls_latch_mono)
next
  assume a: "past_pd_threshold self \<and> float_lt pos' (pd_begin self) \<and> t_begin self \<le> t' \<and> t' < t_reset self"
  then have l: "past_pd_threshold (calls self xs)"
    by (simp add: calls_latch_mono)
  from a have "t_begin (calls self xs) \<le> t'" "t' < t_reset (calls self xs)"
    by (simp_all add: calls_params)
  from call_latched [OF l this]
  show c: "fst (TorqueToPD_call (calls self xs) pos' t') =
        \<lparr>cmd_position = Some (pd_target self), cmd_feedforward_torque = None,
         cmd_kp_scale = kp_scale self, cmd_kd_scale = kd_scale self,
         cmd_maximum_torque = maximum_torque self, cmd_query = True\<rparr>"
    by (simp add: calls_params)
  show "fst (TorqueToPD_call (calls self xs) pos' t') \<noteq>
        \<lparr>cmd_position = None, cmd_feedforward_torque = Some (torque self),
         cmd_kp_scale = 0, cmd_kd_scale = 0,
         cmd_maximum_torque = maximum_torque self, cmd_query = True\<rparr>"
    unfolding c by simp
qed

theorem latch_is_sticky_witness:
  "\<not> past_pd_threshold main_torque_to_pd \<and>
   past_pd_threshold (snd (TorqueToPD_call main_torque_to_pd (Finite 2.1) 0.5)) \<and>
   fst (TorqueToPD_call main_torque_to_pd (Finite 2.1) 0.5) =
     \<lparr>cmd_position = Some 2.5, cmd_feedforward_torque = None,
      cmd_kp_scale = 1, cmd_kd_scale = 1, cmd_maximum_torque = 1.5, cmd_query = True\<rparr> \<and>
   past_pd_threshold (calls main_torque_to_pd [(Finite 2.1, 0.5)]) \<and>
   float_lt (Finite 1) (pd_begin main_torque_to_pd) \<and>
   fst (TorqueToPD_call (calls (calls main_torque_to_pd [(Finite 2.1, 0.5)]) [(Finite 0, 0.6)])
          (Finite 1) 0.7) =
     \<lparr>cmd_position = Some 2.5, cmd_feedforward_torque = None,
      cmd_kp_scale = 1, cmd_kd_scale = 1, cmd_maximum_torque = 1.5, cmd_query = True\<rparr>"
  using latch_is_sticky [of "0.4" "0.8" 2 "2.5" "1.5" 1 1 "1.5" "1.2" "0.2"
      main_torque_to_pd "Finite 2.1" "0.5" "[(Finite 2.1, 0.5)]" "Finite 1" "0.7"]
    latch_is_sticky [of "0.4" "0.8" 2 "2.5" "1.5" 1 1 "1.5" "1.2" "0.2"
      "calls main_torque_to_pd [(Finite 2.1, 0.5)]" "Finite 0" 0 "[(Finite 0, 0.6)]" "Finite 1" "0.7"]
  by (simp add: main_torque_to_pd_def TorqueToPD_init_def TorqueToPD_call_def)

lemma not_float_lt: "(\<not> float_lt x b) = (float_ge x b \<or> x = NaN)"
  by (cases x) auto

lemma calls_latch_origin:
  "past_pd_threshold (calls self xs) \<Longrightarrow>
   past_pd_threshold self \<or>
   (\<exists>(pos, t) \<in> set xs. t_begin self \<le> t \<and> t < t_reset self \<and> \<not> float_lt pos (pd_begin self))"
proof (induction xs arbitrary: self)
  case Nil
  then show ?case by simp
next
  case (Cons x xs)
  obtain pos t where x: "x = (pos, t)" by (cases x)
  from Cons.prems have "past_pd_threshold (calls (snd (TorqueToPD_call self pos t)) xs)"
    by (simp add: x)
  from Cons.IH [OF this] show ?case
    by (auto simp: x call_latch call_params)
qed

text \<open>
  C10. The statement that the latch is true only after a call with
  \<open>t_begin \<le> t < t_reset\<close> and \<open>pos \<ge> pd_begin\<close> fails for a position that is NaN:
  on the selector of \<^verbatim>\<open>main\<close>, the single call with \<open>pos = NaN\<close> at \<open>t = 0.5\<close> finds
  \<^verbatim>\<open>pos < self.pd_begin\<close> false, takes the third branch and sets the latch, although
  \<^verbatim>\<open>pos >= self.pd_begin\<close> is false too.
\<close>

theorem latch_set_by_nan_position_counterexample:
  "past_pd_threshold (calls (TorqueToPD_init 0.4 0.8 2.0 2.5 1.5 1.0 1.0 1.5 1.2 0.2) [(NaN, 0.5)]) \<and>
   \<not> (\<exists>(pos, t) \<in> set [(NaN, 0.5::real)]. (0.4::real) \<le> t \<and> t < 0.8 \<and> float_ge pos 2.0)"
  by (simp add: TorqueToPD_init_def TorqueToPD_call_def)

text \<open>
  C10, as the code has it. Starting from a new object (latch false), if the latch is
  true after a sequence of calls, then some call of the sequence had \<open>t_begin \<le> t\<close>,
  \<open>t < t_reset\<close> and a position that was not below \<open>pd_begin\<close>: one with
  \<open>pos \<ge> pd_begin\<close>, or NaN.
\<close>

theorem latch_set_only_by_threshold_call:
  "past_pd_threshold (calls (TorqueToPD_init tb tr pb pt tq kp kd mt tt rt) xs) \<Longrightarrow>
   \<exists>(pos, t) \<in> set xs. tb \<le> t \<and> t < tr \<and> (float_ge pos pb \<or> pos = NaN)"
  using calls_latch_origin [of "TorqueToPD_init tb tr pb pt tq kp kd mt tt rt" xs]
  by (simp add: TorqueToPD_init_def not_float_lt)

theorem latch_set_only_by_threshold_call_witness:
  "past_pd_threshold (calls (TorqueToPD_init 0.4 0.8 2.0 2.5 1.5 1.0 1.0 1.5 1.2 0.2)
      [(Finite 0, 0.1), (Finite 1, 0.5), (Finite 2.1, 0.6), (Finite 1.9, 0.9)]) \<and>
   (\<exists>(pos, t) \<in> set [(Finite 0, 0.1), (Finite 1, 0.5), (Finite 2.1, 0.6), (Finite 1.9, 0.9::real)].
      (0.4::real) \<le> t \<and> t < 0.8 \<and> (float_ge pos 2.0 \<or> pos = NaN))"
  using latch_set_only_by_threshold_call [of "0.4" "0.8" "2.0" "2.5" "1.5" "1.0" "1.0" "1.5" "1.2" "0.2"
      "[(Finite 0, 0.1), (Finite 1, 0.5), (Finite 2.1, 0.6), (Finite 1.9, 0.9)]"]
  by (simp add: TorqueToPD_init_def TorqueToPD_call_def)

section \<open>Properties of the control loop\<close>

text \<open>
  One iteration, by whether the actuator answers the call: the world after it, and
  the locals of the next iteration.
\<close>

lemma loop_body_Some:
  "actuator e (actuator_calls w) = Some st \<Longrightarrow>
   loop_body e f w =
     (if clock e (clock_reads w) - timestamp_begin_loop f > termination_time (torque_to_pd f) then Return
      else Continue \<lparr>dt_filtered = 0.99 * dt_filtered f + 0.01 * (clock e (clock_reads w) - last_time f),
                     last_time = clock e (clock_reads w),
                     timestamp_begin_loop = timestamp_begin_loop f,
                     last_position = POSITION st,
                     torque_to_pd = snd (TorqueToPD_call (torque_to_pd f) (last_position f)
                        (clock e (clock_reads w) - timestamp_begin_loop f))\<rparr>,
      w\<lparr>clock_reads := Suc (clock_reads w), actuator_calls := Suc (actuator_calls w),
        trace := trace w @ [SetPosition (fst (TorqueToPD_call (torque_to_pd f) (last_position f)
                        (clock e (clock_reads w) - timestamp_begin_loop f)))],
        data := data w @ [(clock e (clock_reads w) - timestamp_begin_loop f, st)]\<rparr>)"
  by (simp add: loop_body_def time_time_def set_position_def Let_def call_params case_prod_beta)

lemma loop_body_None:
  "actuator e (actuator_calls w) = None \<Longrightarrow>
   loop_body e f w =
     (Raise ActuatorError,
      w\<lparr>clock_reads := Suc (clock_reads w), actuator_calls := Suc (actuator_calls w),
        trace := trace w @ [SetPosition (fst (TorqueToPD_call (torque_to_pd f) (last_position f)
                        (clock e (clock_reads w) - timestamp_begin_loop f)))]\<rparr>)"
  by (simp add: loop_body_def time_time_def set_position_def Let_def case_prod_beta)

lemma loop_body_Continue:
  "loop_body e f w = (Continue f', w') \<Longrightarrow>
   last_time f' = clock e (clock_reads w) \<and>
   timestamp_begin_loop f' = timestamp_begin_loop f \<and>
   clock_reads w' = Suc (clock_reads w) \<and>
   actuator_calls w' = Suc (actuator_calls w) \<and>
   length (data w') = Suc (length (data w))"
proof (cases "actuator e (actuator_calls w)")
  case None
  assume "loop_body e f w = (Continue f', w')"
  then show ?thesis
    by (simp add: loop_body_None [OF None])
next
  case (Some st)
  assume "loop_body e f w = (Continue f', w')"
  then show ?thesis
    by (auto simp: loop_body_Some [OF Some] split: if_splits)
qed

lemma loop_body_trace:
  "trace (snd (loop_body e f w)) =
     trace w @ [SetPosition (fst (TorqueToPD_call (torque_to_pd f) (last_position f)
                  (clock e (clock_reads w) - timestamp_begin_loop f)))]"
proof (cases "actuator e (actuator_calls w)")
  case None
  then show ?thesis by (simp add: loop_body_None)
next
  case (Some st)
  then show ?thesis by (simp add: loop_body_Some)
qed

lemma set_stop_eq:
  "set_stop e w =
     (if actuator e (actuator_calls w) = None then Inl ActuatorError else Inr (),
      w\<lparr>actuator_calls := Suc (actuator_calls w), trace := trace w @ [Stop]\<rparr>)"
  by (simp add: set_stop_def split: option.splits)

lemma main_locals_eq:
  "main_locals tpd e w =
     (\<lparr>dt_filtered = 0, last_time = clock e (clock_reads w),
       timestamp_begin_loop = clock e (Suc (clock_reads w)),
       last_position = Finite 0, torque_to_pd = tpd\<rparr>,
      w\<lparr>clock_reads := Suc (Suc (clock_reads w))\<rparr>)"
  by (simp add: main_locals_def time_time_def)

lemma main_finally_answers:
  "actuator e (actuator_calls w) \<noteq> None \<Longrightarrow>
   main_finally e r w =
     (r, w\<lparr>actuator_calls := Suc (actuator_calls w), trace := trace w @ [Stop, Dump (data w)]\<rparr>)"
  by (auto simp: main_finally_def set_stop_eq pickle_dump_def)

subsection \<open>The first command of a run\<close>

lemma while_True_trace:
  "while_True fuel e f w = Some (r, w') \<Longrightarrow> \<exists>ys. trace w' = trace w @ ys"
proof (induction fuel arbitrary: f w)
  case 0
  then show ?case by simp
next
  case (Suc n)
  obtain fl v where body: "loop_body e f w = (fl, v)"
    by (cases "loop_body e f w")
  from loop_body_trace [of e f w] obtain c where v: "trace v = trace w @ [SetPosition c]"
    by (simp add: body)
  show ?case
  proof (cases fl)
    case (Continue g)
    with Suc.prems body have "while_True n e g v = Some (r, w')" by simp
    from Suc.IH [OF this] v show ?thesis by auto
  next
    case Return
    with Suc.prems body v show ?thesis by auto
  next
    case (Raise err)
    with Suc.prems body v show ?thesis by auto
  qed
qed

lemma while_True_first:
  "while_True fuel e f w = Some (r, w') \<Longrightarrow>
   \<exists>ys. trace w' = trace w @ SetPosition (fst (TorqueToPD_call (torque_to_pd f) (last_position f)
                  (clock e (clock_reads w) - timestamp_begin_loop f))) # ys"
proof (cases fuel)
  case 0
  assume "while_True fuel e f w = Some (r, w')"
  with 0 show ?thesis by simp
next
  case (Suc n)
  assume run: "while_True fuel e f w = Some (r, w')"
  obtain fl v where body: "loop_body e f w = (fl, v)"
    by (cases "loop_body e f w")
  from loop_body_trace [of e f w] have v: "trace v = trace w @
      [SetPosition (fst (TorqueToPD_call (torque_to_pd f) (last_position f)
                  (clock e (clock_reads w) - timestamp_begin_loop f)))]"
    by (simp add: body)
  show ?thesis
  proof (cases fl)
    case (Continue g)
    with run body Suc have "while_True n e g v = Some (r, w')" by simp
    from while_True_trace [OF this] v show ?thesis by auto
  next
    case Return
    with run body Suc v show ?thesis by auto
  next
    case (Raise err)
    with run body Suc v show ?thesis by auto
  qed
qed

lemma first_iteration:
  "actuator e 0 \<noteq> None \<Longrightarrow>
   main_locals tpd e (snd (set_stop e world0)) = (f0, w1) \<Longrightarrow>
   torque_to_pd f0 = tpd \<and> last_position f0 = Finite 0 \<and>
   trace (snd (loop_body e f0 w1)) =
     [Stop, SetPosition (fst (TorqueToPD_call tpd (Finite 0) (clock e 2 - clock e 1)))] \<and>
   (\<forall>fuel r w. main_with fuel tpd e world0 = Some (r, w) \<longrightarrow>
      (\<exists>rest. trace w =
         Stop # SetPosition (fst (TorqueToPD_call tpd (Finite 0) (clock e 2 - clock e 1))) # rest))"
proof -
  let ?c = "fst (TorqueToPD_call tpd (Finite 0) (clock e 2 - clock e 1))"
  assume ok: "actuator e 0 \<noteq> None"
    and loc: "main_locals tpd e (snd (set_stop e world0)) = (f0, w1)"
  from loc have f0: "f0 = \<lparr>dt_filtered = 0, last_time = clock e 0, timestamp_begin_loop = clock e 1,
             last_position = Finite 0, torque_to_pd = tpd\<rparr>"
    and w1: "w1 = \<lparr>clock_reads = 2, actuator_calls = 1, data = [], trace = [Stop]\<rparr>"
    by (auto simp: main_locals_eq set_stop_eq world0_def numeral_2_eq_2)
  have sel: "fst (TorqueToPD_call (torque_to_pd f0) (last_position f0)
               (clock e (clock_reads w1) - timestamp_begin_loop f0)) = ?c"
    by (simp add: f0 w1)
  have a: "torque_to_pd f0 = tpd" "last_position f0 = Finite 0"
    by (simp_all add: f0)
  have b: "trace (snd (loop_body e f0 w1)) = [Stop, SetPosition ?c]"
    unfolding loop_body_trace sel by (simp add: w1)
  have c: "\<exists>rest. trace w = Stop # SetPosition ?c # rest"
    if run: "main_with fuel tpd e world0 = Some (r, w)" for fuel r w
  proof -
    from run obtain r1 v where t: "main_try fuel tpd e world0 = Some (r1, v)"
      and fin: "main_finally e r1 v = (r, w)"
      by (auto simp: main_with_def split: option.splits)
    from ok obtain st0 where "actuator e 0 = Some st0" by auto
    with t loc have "while_True fuel e f0 w1 = Some (r1, v)"
      by (simp add: main_try_def set_stop_def world0_def)
    from while_True_first [OF this] obtain ys where
      "trace v = trace w1 @ SetPosition ?c # ys"
      unfolding sel by blast
    then have v: "trace v = Stop # SetPosition ?c # ys"
      by (simp add: w1)
    from fin have "\<exists>zs. trace w = trace v @ zs"
      by (auto simp: main_finally_def set_stop_eq pickle_dump_def split: if_splits)
    with v show ?thesis by auto
  qed
  from a b c show ?thesis by blast
qed

text \<open>
  C9. The statement that a selector with \<open>t_begin \<le> 0\<close> and \<open>pd_begin > 0\<close> always
  gets the feedforward push as its first command fails when the wall clock is set back
  between the reading of \<^verbatim>\<open>timestamp_begin_loop\<close> and the first \<^verbatim>\<open>loop_start\<close>
  (\<^verbatim>\<open>time.time()\<close> is not monotonic): with \<open>t_begin = 0\<close> and the clock half a second
  back, the elapsed time of the first iteration is \<open>-0.5 < t_begin\<close> and the first
  command is hold-zero.
\<close>

theorem first_command_clock_set_back_counterexample:
  "t_begin (TorqueToPD_init 0 0.8 2 2.5 1.5 1 1 1.5 1.2 0.2) \<le> 0 \<and>
   0 < pd_begin (TorqueToPD_init 0 0.8 2 2.5 1.5 1 1 1.5 1.2 0.2) \<and>
   trace (snd (loop_body env_clock_back
       (fst (main_locals (TorqueToPD_init 0 0.8 2 2.5 1.5 1 1 1.5 1.2 0.2) env_clock_back
               (snd (set_stop env_clock_back world0))))
       (snd (main_locals (TorqueToPD_init 0 0.8 2 2.5 1.5 1 1 1.5 1.2 0.2) env_clock_back
               (snd (set_stop env_clock_back world0)))))) =
     [Stop, SetPosition \<lparr>cmd_position = Some 0, cmd_feedforward_torque = None,
                         cmd_kp_scale = 1, cmd_kd_scale = 1,
                         cmd_maximum_torque = 1.5, cmd_query = True\<rparr>] \<and>
   trace (snd (loop_body env_clock_back
       (fst (main_locals (TorqueToPD_init 0 0.8 2 2.5 1.5 1 1 1.5 1.2 0.2) env_clock_back
               (snd (set_stop env_clock_back world0))))
       (snd (main_locals (TorqueToPD_init 0 0.8 2 2.5 1.5 1 1 1.5 1.2 0.2) env_clock_back
               (snd (set_stop env_clock_back world0)))))) \<noteq>
     [Stop, SetPosition \<lparr>cmd_position = None, cmd_feedforward_torque = Some 1.5,
                         cmd_kp_scale = 0, cmd_kd_scale = 0,
                         cmd_maximum_torque = 1.5, cmd_query = True\<rparr>]"
  by (simp add: env_clock_back_def main_locals_eq set_stop_eq world0_def loop_body_trace
      TorqueToPD_init_def TorqueToPD_call_def)

text \<open>
  C9, as the code has it. The first iteration calls the selector with
  \<open>last_position = 0.0\<close>, not with a position read from the actuator. For a selector
  constructed with \<open>t_begin \<le> 0\<close> and \<open>pd_begin > 0\<close>, and a clock that does not go
  back between the reading of \<open>timestamp_begin_loop\<close> and the first \<open>loop_start\<close> (so
  that the elapsed time is not negative), the first \<open>set_position\<close> of the run is the
  feedforward push, whatever the actuator answers: it is the second event of the trace
  after the first iteration, and of the trace of every run that comes to an end.
\<close>

theorem first_command_is_feedforward_push:
  "tb \<le> 0 \<Longrightarrow> 0 < pb \<Longrightarrow> clock e 1 \<le> clock e 2 \<Longrightarrow> actuator e 0 \<noteq> None \<Longrightarrow>
   main_locals (TorqueToPD_init tb tr pb pt tq kp kd mt tt rt) e (snd (set_stop e world0)) = (f0, w1) \<Longrightarrow>
   last_position f0 = Finite 0 \<and>
   trace (snd (loop_body e f0 w1)) =
     [Stop, SetPosition \<lparr>cmd_position = None, cmd_feedforward_torque = Some tq,
                         cmd_kp_scale = 0, cmd_kd_scale = 0,
                         cmd_maximum_torque = mt, cmd_query = True\<rparr>] \<and>
   (\<forall>fuel r w. main_with fuel (TorqueToPD_init tb tr pb pt tq kp kd mt tt rt) e world0 = Some (r, w) \<longrightarrow>
      (\<exists>rest. trace w =
         Stop # SetPosition \<lparr>cmd_position = None, cmd_feedforward_torque = Some tq,
                         cmd_kp_scale = 0, cmd_kd_scale = 0,
                         cmd_maximum_torque = mt, cmd_query = True\<rparr> # rest))"
proof -
  let ?tpd = "TorqueToPD_init tb tr pb pt tq kp kd mt tt rt"
  let ?push = "\<lparr>cmd_position = None, cmd_feedforward_torque = Some tq,
                cmd_kp_scale = 0, cmd_kd_scale = 0,
                cmd_maximum_torque = mt, cmd_query = True\<rparr>"
  assume tb: "tb \<le> 0" and pb: "0 < pb" and mono: "clock e 1 \<le> clock e 2"
    and ok: "actuator e 0 \<noteq> None"
    and loc: "main_locals ?tpd e (snd (set_stop e world0)) = (f0, w1)"
  from loc have f0: "f0 = \<lparr>dt_filtered = 0, last_time = clock e 0, timestamp_begin_loop = clock e 1,
             last_position = Finite 0, torque_to_pd = ?tpd\<rparr>"
    and w1: "w1 = \<lparr>clock_reads = 2, actuator_calls = 1, data = [], trace = [Stop]\<rparr>"
    by (auto simp: main_locals_eq set_stop_eq world0_def numeral_2_eq_2)
  have sel: "fst (TorqueToPD_call (torque_to_pd f0) (last_position f0)
               (clock e (clock_reads w1) - timestamp_begin_loop f0)) = ?push"
    using tb pb mono by (simp add: f0 w1 TorqueToPD_call_def TorqueToPD_init_def)
  have a: "last_position f0 = Finite 0"
    by (simp add: f0)
  have b: "trace (snd (loop_body e f0 w1)) = [Stop, SetPosition ?push]"
    unfolding loop_body_trace sel by (simp add: w1)
  have c: "\<exists>rest. trace w = Stop # SetPosition ?push # rest"
    if run: "main_with fuel ?tpd e world0 = Some (r, w)" for fuel r w
  proof -
    from run obtain r1 v where t: "main_try fuel ?tpd e world0 = Some (r1, v)"
      and fin: "main_finally e r1 v = (r, w)"
      by (auto simp: main_with_def split: option.splits)
    from ok obtain st0 where "actuator e 0 = Some st0" by auto
    with t loc have "while_True fuel e f0 w1 = Some (r1, v)"
      by (simp add: main_try_def set_stop_def world0_def)
    from while_True_first [OF this] obtain ys where
      "trace v = trace w1 @ SetPosition ?push # ys"
      unfolding sel by blast
    then have v: "trace v = Stop # SetPosition ?push # ys"
      by (simp add: w1)
    from fin have "\<exists>zs. trace w = trace v @ zs"
      by (auto simp: main_finally_def set_stop_eq pickle_dump_def split: if_splits)
    with v show ?thesis by auto
  qed
  from a b c show ?thesis by blast
qed

theorem first_command_is_feedforward_push_witness:
  "(0::real) \<le> 0 \<and> (0::real) < 2 \<and> clock env_half 1 \<le> clock env_half 2 \<and>
   actuator env_half 0 \<noteq> None \<and>
   trace (snd (loop_body env_half
       (fst (main_locals (TorqueToPD_init 0 0.8 2 2.5 1.5 1 1 1.5 1.2 0.2) env_half (snd (set_stop env_half world0))))
       (snd (main_locals (TorqueToPD_init 0 0.8 2 2.5 1.5 1 1 1.5 1.2 0.2) env_half (snd (set_stop env_half world0)))))) =
     [Stop, SetPosition \<lparr>cmd_position = None, cmd_feedforward_torque = Some 1.5,
                         cmd_kp_scale = 0, cmd_kd_scale = 0,
                         cmd_maximum_torque = 1.5, cmd_query = True\<rparr>] \<and>
   (\<exists>r w rest. main_with 3 (TorqueToPD_init 0 0.8 2 2.5 1.5 1 1 1.5 1.2 0.2) env_half world0 = Some (r, w) \<and>
      trace w = Stop # SetPosition \<lparr>cmd_position = None, cmd_feedforward_torque = Some 1.5,
                         cmd_kp_scale = 0, cmd_kd_scale = 0,
                         cmd_maximum_torque = 1.5, cmd_query = True\<rparr> # rest)"
  using first_command_is_feedforward_push [of 0 2 env_half "0.8" "2.5" "1.5" 1 1 "1.5" "1.2" "0.2"
    "fst (main_locals (TorqueToPD_init 0 0.8 2 2.5 1.5 1 1 1.5 1.2 0.2) env_half (snd (set_stop env_half world0)))"
    "snd (main_locals (TorqueToPD_init 0 0.8 2 2.5 1.5 1 1 1.5 1.2 0.2) env_half (snd (set_stop env_half world0)))"]
  by (simp add: env_half_def main_with_def main_try_def main_finally_def main_locals_eq set_stop_eq
      pickle_dump_def world0_def loop_body_Some TorqueToPD_init_def TorqueToPD_call_def
      numeral_3_eq_3)

subsection \<open>Configurations are not checked at the start\<close>

text \<open>
  C3. The claim that a configuration violating \<open>0 \<le> t_begin \<le> t_reset \<le>
  termination_time\<close> or \<open>maximum_torque > 0\<close> is rejected at the start of the run fails:
  with \<open>t_begin = 1\<close>, \<open>t_reset = 0.5\<close>, \<open>termination_time = 0.2\<close> and
  \<open>maximum_torque = -1\<close> the run enters the loop, sends a hold-zero command with torque
  limit \<open>-1\<close>, and returns normally after the final stop and the dump.
\<close>

theorem invalid_configuration_runs_counterexample:
  "t_reset (TorqueToPD_init 1 0.5 2.0 2.5 1.5 1.0 1.0 (- 1) 0.2 0.2) <
     t_begin (TorqueToPD_init 1 0.5 2.0 2.5 1.5 1.0 1.0 (- 1) 0.2 0.2) \<and>
   maximum_torque (TorqueToPD_init 1 0.5 2.0 2.5 1.5 1.0 1.0 (- 1) 0.2 0.2) < 0 \<and>
   main_with 1 (TorqueToPD_init 1 0.5 2.0 2.5 1.5 1.0 1.0 (- 1) 0.2 0.2) env_half world0 =
     Some (Inr (),
       \<lparr>clock_reads = 3, actuator_calls = 3,
        data = [(0.5, \<lparr>POSITION = Finite 1\<rparr>)],
        trace = [Stop,
                 SetPosition \<lparr>cmd_position = Some 0, cmd_feedforward_torque = None,
                   cmd_kp_scale = 1, cmd_kd_scale = 1, cmd_maximum_torque = - 1,
                   cmd_query = True\<rparr>,
                 Stop,
                 Dump [(0.5, \<lparr>POSITION = Finite 1\<rparr>)]]\<rparr>)"
  by (simp add: main_with_def main_try_def main_finally_def main_locals_eq set_stop_eq
      pickle_dump_def world0_def env_half_def loop_body_Some TorqueToPD_init_def
      TorqueToPD_call_def numeral_3_eq_3)

text \<open>
  C3, as the code has it. A configuration that violates the invariant is not rejected
  at the start of the run: \<^verbatim>\<open>__init__\<close> stores \<open>t_begin\<close>, \<open>t_reset\<close>,
  \<open>termination_time\<close> and \<open>maximum_torque\<close> as they are given, whatever they are, and
  once the first \<^verbatim>\<open>set_stop\<close> is answered the control loop begins with them: the first
  iteration sends the command that the selector chooses from the stored parameters.
\<close>

theorem invalid_configuration_is_not_rejected_at_start:
  "actuator e 0 \<noteq> None \<Longrightarrow>
   main_locals (TorqueToPD_init tb tr pb pt tq kp kd mt tt rt) e (snd (set_stop e world0)) = (f0, w1) \<Longrightarrow>
   t_begin (torque_to_pd f0) = tb \<and> t_reset (torque_to_pd f0) = tr \<and>
   termination_time (torque_to_pd f0) = tt \<and> maximum_torque (torque_to_pd f0) = mt \<and>
   trace (snd (loop_body e f0 w1)) =
     [Stop, SetPosition (fst (TorqueToPD_call (TorqueToPD_init tb tr pb pt tq kp kd mt tt rt)
                                (Finite 0) (clock e 2 - clock e 1)))] \<and>
   (\<forall>fuel r w. main_with fuel (TorqueToPD_init tb tr pb pt tq kp kd mt tt rt) e world0 = Some (r, w) \<longrightarrow>
      (\<exists>rest. trace w =
         Stop # SetPosition (fst (TorqueToPD_call (TorqueToPD_init tb tr pb pt tq kp kd mt tt rt)
                                    (Finite 0) (clock e 2 - clock e 1))) # rest))"
proof -
  let ?tpd = "TorqueToPD_init tb tr pb pt tq kp kd mt tt rt"
  assume ok: "actuator e 0 \<noteq> None"
    and loc: "main_locals ?tpd e (snd (set_stop e world0)) = (f0, w1)"
  note fi = first_iteration [OF ok loc]
  from fi have "torque_to_pd f0 = ?tpd" by blast
  then have "t_begin (torque_to_pd f0) = tb" "t_reset (torque_to_pd f0) = tr"
    "termination_time (torque_to_pd f0) = tt" "maximum_torque (torque_to_pd f0) = mt"
    by (simp_all add: TorqueToPD_init_def)
  with fi show ?thesis by blast
qed

theorem invalid_configuration_is_not_rejected_at_start_witness:
  "actuator env_half 0 \<noteq> None \<and>
   t_reset (torque_to_pd (fst (main_locals (TorqueToPD_init 1 0.5 2.0 2.5 1.5 1.0 1.0 (- 1) 0.2 0.2)
       env_half (snd (set_stop env_half world0))))) <
   t_begin (torque_to_pd (fst (main_locals (TorqueToPD_init 1 0.5 2.0 2.5 1.5 1.0 1.0 (- 1) 0.2 0.2)
       env_half (snd (set_stop env_half world0))))) \<and>
   trace (snd (loop_body env_half
       (fst (main_locals (TorqueToPD_init 1 0.5 2.0 2.5 1.5 1.0 1.0 (- 1) 0.2 0.2) env_half
               (snd (set_stop env_half world0))))
       (snd (main_locals (TorqueToPD_init 1 0.5 2.0 2.5 1.5 1.0 1.0 (- 1) 0.2 0.2) env_half
               (snd (set_stop env_half world0)))))) =
     [Stop, SetPosition \<lparr>cmd_position = Some 0, cmd_feedforward_torque = None,
                         cmd_kp_scale = 1, cmd_kd_scale = 1,
                         cmd_maximum_torque = - 1, cmd_query = True\<rparr>]"
  using invalid_configuration_is_not_rejected_at_start [of env_half 1 "0.5" "2.0" "2.5" "1.5" "1.0" "1.0" "- 1" "0.2" "0.2"
    "fst (main_locals (TorqueToPD_init 1 0.5 2.0 2.5 1.5 1.0 1.0 (- 1) 0.2 0.2) env_half (snd (set_stop env_half world0)))"
    "snd (main_locals (TorqueToPD_init 1 0.5 2.0 2.5 1.5 1.0 1.0 (- 1) 0.2 0.2) env_half (snd (set_stop env_half world0)))"]
  by (simp add: env_half_def TorqueToPD_init_def TorqueToPD_call_def)

subsection \<open>Normal exit\<close>

lemma upt_0_Suc_Cons: "map g [0..<Suc k] = g 0 # map (\<lambda>j. g (Suc j)) [0..<k]"
proof -
  have "[0..<Suc k] = 0 # map Suc [0..<k]"
    by (simp only: map_Suc_upt) (rule upt_conv_Cons, simp)
  then show ?thesis
    by (simp add: comp_def)
qed

lemma while_True_returns:
  "\<forall>j<m. clock e (clock_reads w + j) - timestamp_begin_loop f \<le> termination_time (torque_to_pd f) \<Longrightarrow>
   termination_time (torque_to_pd f) < clock e (clock_reads w + m) - timestamp_begin_loop f \<Longrightarrow>
   \<forall>j\<le>m. actuator e (actuator_calls w + j) \<noteq> None \<Longrightarrow>
   m < fuel \<Longrightarrow>
   \<exists>w' cs. while_True fuel e f w = Some (Inr (), w') \<and>
      map fst (data w') =
        map fst (data w) @ map (\<lambda>j. clock e (clock_reads w + j) - timestamp_begin_loop f) [0..<Suc m] \<and>
      trace w' = trace w @ map SetPosition cs \<and> length cs = Suc m \<and>
      actuator_calls w' = actuator_calls w + Suc m \<and>
      clock_reads w' = clock_reads w + Suc m"
proof (induction m arbitrary: f w fuel)
  case 0
  from "0.prems"(4) obtain n where fuel: "fuel = Suc n"
    by (cases fuel) auto
  from "0.prems"(3) obtain st where st: "actuator e (actuator_calls w) = Some st"
    by auto
  let ?c = "fst (TorqueToPD_call (torque_to_pd f) (last_position f)
                        (clock e (clock_reads w) - timestamp_begin_loop f))"
  from "0.prems"(2) show ?case
    by (simp add: fuel loop_body_Some [OF st]) (rule exI [of _ "[?c]"], simp)
next
  case (Suc m)
  from Suc.prems(4) obtain n where fuel: "fuel = Suc n" and n: "m < n"
    by (cases fuel) auto
  from Suc.prems(3) obtain st where st: "actuator e (actuator_calls w) = Some st"
    by force
  let ?ts = "clock e (clock_reads w) - timestamp_begin_loop f"
  let ?c = "fst (TorqueToPD_call (torque_to_pd f) (last_position f) ?ts)"
  let ?f = "\<lparr>dt_filtered = 0.99 * dt_filtered f + 0.01 * (clock e (clock_reads w) - last_time f),
             last_time = clock e (clock_reads w),
             timestamp_begin_loop = timestamp_begin_loop f,
             last_position = POSITION st,
             torque_to_pd = snd (TorqueToPD_call (torque_to_pd f) (last_position f) ?ts)\<rparr>"
  let ?w = "w\<lparr>clock_reads := Suc (clock_reads w), actuator_calls := Suc (actuator_calls w),
             trace := trace w @ [SetPosition ?c], data := data w @ [(?ts, st)]\<rparr>"
  from Suc.prems(1) have le: "?ts \<le> termination_time (torque_to_pd f)"
    by force
  have body: "loop_body e f w = (Continue ?f, ?w)"
    using le by (simp add: loop_body_Some [OF st])
  have p1: "\<forall>j<m. clock e (clock_reads ?w + j) - timestamp_begin_loop ?f \<le> termination_time (torque_to_pd ?f)"
    using Suc.prems(1) by (auto simp: call_params)
  have p2: "termination_time (torque_to_pd ?f) < clock e (clock_reads ?w + m) - timestamp_begin_loop ?f"
    using Suc.prems(2) by (simp add: call_params)
  have p3: "\<forall>j\<le>m. actuator e (actuator_calls ?w + j) \<noteq> None"
  proof (intro allI impI)
    fix j assume "j \<le> m"
    then have "Suc j \<le> Suc m" by simp
    with Suc.prems(3) have "actuator e (actuator_calls w + Suc j) \<noteq> None" by blast
    then show "actuator e (actuator_calls ?w + j) \<noteq> None" by simp
  qed
  from Suc.IH [OF p1 p2 p3 n] obtain w' cs where
    r: "while_True n e ?f ?w = Some (Inr (), w')" and
    d: "map fst (data w') =
        map fst (data ?w) @ map (\<lambda>j. clock e (clock_reads ?w + j) - timestamp_begin_loop ?f) [0..<Suc m]" and
    t: "trace w' = trace ?w @ map SetPosition cs" and l: "length cs = Suc m" and
    a: "actuator_calls w' = actuator_calls ?w + Suc m" and
    c: "clock_reads w' = clock_reads ?w + Suc m"
    by blast
  have "while_True fuel e f w = Some (Inr (), w')"
    using r by (simp add: fuel body)
  moreover have "map fst (data w') =
        map fst (data w) @ map (\<lambda>j. clock e (clock_reads w + j) - timestamp_begin_loop f) [0..<Suc (Suc m)]"
    unfolding d upt_0_Suc_Cons [of _ "Suc m"] by simp
  moreover have "trace w' = trace w @ map SetPosition (?c # cs)"
    using t by simp
  moreover have "length (?c # cs) = Suc (Suc m)"
    using l by simp
  moreover have "actuator_calls w' = actuator_calls w + Suc (Suc m)"
    using a by simp
  moreover have "clock_reads w' = clock_reads w + Suc (Suc m)"
    using c by simp
  ultimately show ?case by blast
qed

text \<open>
  C6. Let iteration \<open>m\<close> (counting from 0) be the first whose elapsed time
  \<open>clock e (2 + m) - clock e 1\<close> is greater than \<open>termination_time\<close>, and let the
  actuator answer the first stop and the commands up to that iteration. Then, with fuel
  for more than \<open>m\<close> iterations, the \<^verbatim>\<open>try\<close> block returns normally after exactly
  \<open>m + 1\<close> iterations: \<open>m + 1\<close> commands were sent, \<^verbatim>\<open>data\<close> holds \<open>m + 1\<close>
  samples, one per iteration with that iteration's elapsed time, the last being the
  sample of the iteration that returns.
\<close>

theorem loop_exits_at_first_sample_past_termination:
  "\<forall>j<m. clock e (2 + j) - clock e 1 \<le> termination_time tpd \<Longrightarrow>
   termination_time tpd < clock e (2 + m) - clock e 1 \<Longrightarrow>
   \<forall>i\<le>Suc m. actuator e i \<noteq> None \<Longrightarrow>
   m < fuel \<Longrightarrow>
   \<exists>w cs. main_try fuel tpd e world0 = Some (Inr (), w) \<and>
      length (data w) = Suc m \<and>
      map fst (data w) = map (\<lambda>j. clock e (2 + j) - clock e 1) [0..<Suc m] \<and>
      trace w = Stop # map SetPosition cs \<and> length cs = Suc m"
proof -
  assume le: "\<forall>j<m. clock e (2 + j) - clock e 1 \<le> termination_time tpd"
    and gt: "termination_time tpd < clock e (2 + m) - clock e 1"
    and ok: "\<forall>i\<le>Suc m. actuator e i \<noteq> None"
    and fuel: "m < fuel"
  let ?w1 = "world0\<lparr>actuator_calls := Suc 0, trace := [Stop]\<rparr>"
  let ?f = "\<lparr>dt_filtered = 0, last_time = clock e 0, timestamp_begin_loop = clock e 1,
             last_position = Finite 0, torque_to_pd = tpd\<rparr>"
  let ?w2 = "?w1\<lparr>clock_reads := Suc (Suc 0)\<rparr>"
  from ok obtain st0 where "actuator e 0 = Some st0" by auto
  then have start: "main_try fuel tpd e world0 = while_True fuel e ?f ?w2"
    by (simp add: main_try_def set_stop_def main_locals_eq world0_def)
  have p1: "\<forall>j<m. clock e (clock_reads ?w2 + j) - timestamp_begin_loop ?f
              \<le> termination_time (torque_to_pd ?f)"
    using le by simp
  have p2: "termination_time (torque_to_pd ?f) < clock e (clock_reads ?w2 + m) - timestamp_begin_loop ?f"
    using gt by simp
  have p3: "\<forall>j\<le>m. actuator e (actuator_calls ?w2 + j) \<noteq> None"
    using ok by simp
  from while_True_returns [OF p1 p2 p3 fuel] obtain w cs where
    r: "while_True fuel e ?f ?w2 = Some (Inr (), w)" and
    d: "map fst (data w) =
        map fst (data ?w2) @ map (\<lambda>j. clock e (clock_reads ?w2 + j) - timestamp_begin_loop ?f) [0..<Suc m]" and
    t: "trace w = trace ?w2 @ map SetPosition cs" and l: "length cs = Suc m"
    by blast
  from d have d': "map fst (data w) = map (\<lambda>j. clock e (2 + j) - clock e 1) [0..<Suc m]"
    by (simp add: world0_def)
  from arg_cong [OF d', of length] have "length (data w) = Suc m"
    by simp
  moreover from t have "trace w = Stop # map SetPosition cs"
    by (simp add: world0_def)
  ultimately show ?thesis
    using start r d' l by auto
qed

theorem loop_exits_at_first_sample_past_termination_witness:
  "clock env_half 2 - clock env_half 1 \<le> termination_time main_torque_to_pd \<and>
   clock env_half 3 - clock env_half 1 \<le> termination_time main_torque_to_pd \<and>
   termination_time main_torque_to_pd < clock env_half 4 - clock env_half 1 \<and>
   (\<exists>w cs. main_try 3 main_torque_to_pd env_half world0 = Some (Inr (), w) \<and>
      length (data w) = 3 \<and>
      map fst (data w) = [0.5, 1, 1.5] \<and>
      trace w = Stop # map SetPosition cs \<and> length cs = 3)"
  using loop_exits_at_first_sample_past_termination [of 2 env_half main_torque_to_pd 3]
  by (simp add: env_half_def main_torque_to_pd_def TorqueToPD_init_def less_Suc_eq le_Suc_eq
      numeral_2_eq_2 numeral_3_eq_3 upt_rec [of 0] upt_rec [of "Suc 0"] upt_rec [of "Suc (Suc 0)"])

subsection \<open>Cleanup\<close>

lemma while_True_raises_at:
  "\<forall>j<m. clock e (clock_reads w + j) - timestamp_begin_loop f \<le> termination_time (torque_to_pd f) \<Longrightarrow>
   \<forall>j<m. actuator e (actuator_calls w + j) \<noteq> None \<Longrightarrow>
   actuator e (actuator_calls w + m) = None \<Longrightarrow>
   m < fuel \<Longrightarrow>
   \<exists>w' cs. while_True fuel e f w = Some (Inl ActuatorError, w') \<and>
      length (data w') = length (data w) + m \<and>
      trace w' = trace w @ map SetPosition cs \<and> length cs = Suc m \<and>
      actuator_calls w' = actuator_calls w + Suc m"
proof (induction m arbitrary: f w fuel)
  case 0
  from "0.prems"(4) obtain n where fuel: "fuel = Suc n"
    by (cases fuel) auto
  from "0.prems"(3) have "actuator e (actuator_calls w) = None"
    by simp
  then show ?case
    by (simp add: fuel loop_body_None)
      (rule exI [of _ "[fst (TorqueToPD_call (torque_to_pd f) (last_position f)
          (clock e (clock_reads w) - timestamp_begin_loop f))]"], simp)
next
  case (Suc m)
  from Suc.prems(4) obtain n where fuel: "fuel = Suc n" and n: "m < n"
    by (cases fuel) auto
  from Suc.prems(2) obtain st where st: "actuator e (actuator_calls w) = Some st"
    by force
  from Suc.prems(1) have le: "clock e (clock_reads w) - timestamp_begin_loop f
      \<le> termination_time (torque_to_pd f)"
    by force
  obtain g v where body: "loop_body e f w = (Continue g, v)"
    using le by (simp add: loop_body_Some [OF st])
  note b = loop_body_Continue [OF body]
  have tt: "termination_time (torque_to_pd g) = termination_time (torque_to_pd f)"
    using body le by (auto simp: loop_body_Some [OF st] call_params)
  have p1: "\<forall>j<m. clock e (clock_reads v + j) - timestamp_begin_loop g \<le> termination_time (torque_to_pd g)"
  proof (intro allI impI)
    fix j assume "j < m"
    then have "Suc j < Suc m" by simp
    with Suc.prems(1) have "clock e (clock_reads w + Suc j) - timestamp_begin_loop f
        \<le> termination_time (torque_to_pd f)" by blast
    then show "clock e (clock_reads v + j) - timestamp_begin_loop g \<le> termination_time (torque_to_pd g)"
      using b tt by simp
  qed
  have p2: "\<forall>j<m. actuator e (actuator_calls v + j) \<noteq> None"
  proof (intro allI impI)
    fix j assume "j < m"
    then have "Suc j < Suc m" by simp
    with Suc.prems(2) have "actuator e (actuator_calls w + Suc j) \<noteq> None" by blast
    then show "actuator e (actuator_calls v + j) \<noteq> None"
      using b by simp
  qed
  have p3: "actuator e (actuator_calls v + m) = None"
    using Suc.prems(3) b by simp
  from Suc.IH [OF p1 p2 p3 n] obtain w' cs where
    r: "while_True n e g v = Some (Inl ActuatorError, w')" and
    d: "length (data w') = length (data v) + m" and
    t: "trace w' = trace v @ map SetPosition cs" and l: "length cs = Suc m" and
    a: "actuator_calls w' = actuator_calls v + Suc m"
    by blast
  from loop_body_trace [of e f w] obtain c where v: "trace v = trace w @ [SetPosition c]"
    by (simp add: body)
  have "while_True fuel e f w = Some (Inl ActuatorError, w')"
    using r by (simp add: fuel body)
  moreover have "length (data w') = length (data w) + Suc m"
    using d b by simp
  moreover have "trace w' = trace w @ map SetPosition (c # cs)"
    using t v by simp
  moreover have "length (c # cs) = Suc (Suc m)"
    using l by simp
  moreover have "actuator_calls w' = actuator_calls w + Suc (Suc m)"
    using a b by simp
  ultimately show ?case by blast
qed

text \<open>
  When \<^verbatim>\<open>set_position\<close> raises in iteration \<open>m + 1\<close> and the \<^verbatim>\<open>set_stop\<close> of the
  \<^verbatim>\<open>finally\<close> block is answered, the run ends with that stop and one dump of the
  \<open>m\<close> samples of the iterations before, and the error leaves \<^verbatim>\<open>main\<close>.
\<close>

lemma failure_on_iteration_flushes_earlier_samples:
  "\<forall>j<m. clock e (2 + j) - clock e 1 \<le> termination_time tpd \<Longrightarrow>
   \<forall>i\<le>m. actuator e i \<noteq> None \<Longrightarrow>
   actuator e (Suc m) = None \<Longrightarrow>
   actuator e (Suc (Suc m)) \<noteq> None \<Longrightarrow>
   m < fuel \<Longrightarrow>
   \<exists>w cs. main_with fuel tpd e world0 = Some (Inl ActuatorError, w) \<and>
      trace w = Stop # map SetPosition cs @ [Stop, Dump (data w)] \<and>
      length cs = Suc m \<and> length (data w) = m"
proof -
  assume le: "\<forall>j<m. clock e (2 + j) - clock e 1 \<le> termination_time tpd"
    and ok: "\<forall>i\<le>m. actuator e i \<noteq> None"
    and bad: "actuator e (Suc m) = None"
    and fin: "actuator e (Suc (Suc m)) \<noteq> None"
    and fuel: "m < fuel"
  let ?f = "\<lparr>dt_filtered = 0, last_time = clock e 0, timestamp_begin_loop = clock e 1,
             last_position = Finite 0, torque_to_pd = tpd\<rparr>"
  let ?w2 = "world0\<lparr>actuator_calls := Suc 0, trace := [Stop], clock_reads := Suc (Suc 0)\<rparr>"
  from ok obtain st0 where "actuator e 0 = Some st0" by auto
  then have start: "main_try fuel tpd e world0 = while_True fuel e ?f ?w2"
    by (simp add: main_try_def set_stop_def main_locals_eq world0_def)
  have p1: "\<forall>j<m. clock e (clock_reads ?w2 + j) - timestamp_begin_loop ?f
              \<le> termination_time (torque_to_pd ?f)"
    using le by simp
  have p2: "\<forall>j<m. actuator e (actuator_calls ?w2 + j) \<noteq> None"
    using ok by simp
  have p3: "actuator e (actuator_calls ?w2 + m) = None"
    using bad by simp
  from while_True_raises_at [OF p1 p2 p3 fuel] obtain v cs where
    r: "while_True fuel e ?f ?w2 = Some (Inl ActuatorError, v)" and
    d: "length (data v) = length (data ?w2) + m" and
    t: "trace v = trace ?w2 @ map SetPosition cs" and l: "length cs = Suc m" and
    a: "actuator_calls v = actuator_calls ?w2 + Suc m"
    by blast
  from fin a have "actuator e (actuator_calls v) \<noteq> None"
    by simp
  from main_finally_answers [OF this] r
  have "main_with fuel tpd e world0 =
      Some (Inl ActuatorError,
        v\<lparr>actuator_calls := Suc (actuator_calls v), trace := trace v @ [Stop, Dump (data v)]\<rparr>)"
    by (simp add: main_with_def start)
  moreover have "trace v @ [Stop, Dump (data v)] = Stop # map SetPosition cs @ [Stop, Dump (data v)]"
    using t by (simp add: world0_def)
  moreover have "length (data v) = m"
    using d by (simp add: world0_def)
  ultimately show ?thesis
    using l by auto
qed

text \<open>
  C2. The \<^verbatim>\<open>finally\<close> block awaits \<^verbatim>\<open>set_stop\<close> before it opens the log file. On an
  actuator that answers the first stop and raises on every call after it, the first
  \<^verbatim>\<open>set_position\<close> raises, the \<^verbatim>\<open>set_stop\<close> of \<^verbatim>\<open>finally\<close> raises as well, and
  \<^verbatim>\<open>main\<close> is left with that error: the trace of the run has the final stop and no
  dump.
\<close>

theorem cleanup_skips_dump_when_final_stop_raises:
  "main 1 env_unplugged world0 =
     Some (Inl ActuatorError,
       \<lparr>clock_reads = 3, actuator_calls = 3, data = [],
        trace = [Stop,
                 SetPosition \<lparr>cmd_position = None, cmd_feedforward_torque = Some 1.5,
                   cmd_kp_scale = 0, cmd_kd_scale = 0, cmd_maximum_torque = 1.5,
                   cmd_query = True\<rparr>,
                 Stop]\<rparr>)"
  by (simp add: main_def main_with_def main_try_def main_finally_def main_locals_eq set_stop_eq
      pickle_dump_def world0_def env_unplugged_def loop_body_None main_torque_to_pd_def
      TorqueToPD_init_def TorqueToPD_call_def numeral_3_eq_3)

end
